theory Spec2Isabelle
  imports Complex_Main
begin

section \<open>Emotion detection backend: text normalisation\<close>

text \<open>
  The development embeds \<^verbatim>\<open>backend/app.py\<close>. Python strings are character lists.
  Character classes have their meaning on ASCII text: \<^verbatim>\<open>str.lower\<close> maps \<^verbatim>\<open>A-Z\<close> to
  \<^verbatim>\<open>a-z\<close>, \<^verbatim>\<open>\s\<close> is the ASCII white space of Python's \<^verbatim>\<open>str\<close> patterns (codes 9-13,
  28-31 and 32) and \<^verbatim>\<open>\w\<close> is \<^verbatim>\<open>[a-zA-Z0-9_]\<close>. Glyphs outside ASCII, which the source
  only stores and returns, are written as their UTF-8 bytes.

  What the source gets from NLTK (the English stop word list, \<^verbatim>\<open>word_tokenize\<close>, the
  WordNet lemmatizer) and from the pickled scikit-learn model is not code of the
  repository: it is a parameter of the embedding. Each such call can raise; a raised
  exception is a value \<open>Inl (Exception msg)\<close>, where \<open>msg\<close> is what \<^verbatim>\<open>str(e)\<close> gives.
\<close>

datatype error = Exception string

datatype pyval =
    PyNone
  | PyBool bool
  | PyNum rat
  | PyStr string
  | PyList "pyval list"
  | PyDict "(string \<times> pyval) list"

text \<open>\<^verbatim>\<open>isinstance(text, str)\<close>.\<close>

definition is_str :: "pyval \<Rightarrow> bool" where
  "is_str v = (case v of PyStr s \<Rightarrow> True | _ \<Rightarrow> False)"

subsection \<open>Character classes\<close>

definition is_space :: "char \<Rightarrow> bool" where
  "is_space c = (let n = (of_char c :: nat) in (9 \<le> n \<and> n \<le> 13) \<or> (28 \<le> n \<and> n \<le> 32))"

definition is_upper :: "char \<Rightarrow> bool" where
  "is_upper c = (let n = (of_char c :: nat) in 65 \<le> n \<and> n \<le> 90)"

definition is_lower :: "char \<Rightarrow> bool" where
  "is_lower c = (let n = (of_char c :: nat) in 97 \<le> n \<and> n \<le> 122)"

definition is_alpha :: "char \<Rightarrow> bool" where
  "is_alpha c = (is_lower c \<or> is_upper c)"

definition is_word_char :: "char \<Rightarrow> bool" where
  "is_word_char c =
     (let n = (of_char c :: nat) in is_alpha c \<or> (48 \<le> n \<and> n \<le> 57) \<or> n = 95)"

definition non_space :: "char \<Rightarrow> bool" where
  "non_space c = (\<not> is_space c)"

definition lower_char :: "char \<Rightarrow> char" where
  "lower_char c = (if is_upper c then char_of ((of_char c :: nat) + 32) else c)"

definition lower :: "string \<Rightarrow> string" where
  "lower s = map lower_char s"

subsection \<open>Regular expression substitution\<close>

text \<open>
  \<^verbatim>\<open>re.sub(pattern, '', text)\<close> scans from the left. A matcher tells how many characters
  the pattern matches at the head of its argument, if it matches there; the matched
  characters are dropped and the scan goes on behind them, any other character is kept.
  None of the patterns of the source matches the empty string.
\<close>

fun re_sub_del :: "(string \<Rightarrow> nat option) \<Rightarrow> string \<Rightarrow> string" where
  "re_sub_del m [] = []"
| "re_sub_del m (c # cs) =
     (case m (c # cs) of
        None \<Rightarrow> c # re_sub_del m cs
      | Some 0 \<Rightarrow> c # re_sub_del m cs
      | Some (Suc k) \<Rightarrow> re_sub_del m (drop k cs))"

text \<open>A literal followed by a greedy, non-empty run of a character class: \<^verbatim>\<open>lit\C+\<close>.\<close>

definition lit_run :: "string \<Rightarrow> (char \<Rightarrow> bool) \<Rightarrow> string \<Rightarrow> nat option" where
  "lit_run lit cls s =
     (if take (length lit) s = lit
      then (let r = length (takeWhile cls (drop (length lit) s))
            in if 0 < r then Some (length lit + r) else None)
      else None)"

text \<open>Alternation: the first alternative that matches wins.\<close>

fun alternatives :: "(string \<Rightarrow> nat option) list \<Rightarrow> string \<Rightarrow> nat option" where
  "alternatives [] s = None"
| "alternatives (m # ms) s = (case m s of Some n \<Rightarrow> Some n | None \<Rightarrow> alternatives ms s)"

definition url_pattern :: "string \<Rightarrow> nat option" where
  "url_pattern =
     alternatives [lit_run ''http'' non_space, lit_run ''www'' non_space,
                   lit_run ''https'' non_space]"

definition mention_pattern :: "string \<Rightarrow> nat option" where
  "mention_pattern = alternatives [lit_run ''@'' is_word_char, lit_run ''#'' is_word_char]"

definition remove_urls :: "string \<Rightarrow> string" where
  "remove_urls s = re_sub_del url_pattern s"

definition remove_mentions :: "string \<Rightarrow> string" where
  "remove_mentions s = re_sub_del mention_pattern s"

definition remove_special :: "string \<Rightarrow> string" where
  "remove_special s = filter (\<lambda>c. is_alpha c \<or> is_space c) s"

text \<open>\<^verbatim>\<open>re.sub(r'\s+', ' ', text)\<close>: every maximal run of white space becomes one blank.\<close>

function collapse_spaces :: "string \<Rightarrow> string" where
  "collapse_spaces [] = []"
| "collapse_spaces (c # cs) =
     (if is_space c then CHR '' '' # collapse_spaces (dropWhile is_space cs)
      else c # collapse_spaces cs)"
  by pat_completeness auto
termination
  by (relation "measure length") (auto simp: length_dropWhile_le less_Suc_eq_le)

definition strip :: "string \<Rightarrow> string" where
  "strip s = rev (dropWhile is_space (rev (dropWhile is_space s)))"

text \<open>Lines 139-152 of \<^verbatim>\<open>preprocess_text\<close>, in the order of the source.\<close>

definition clean :: "string \<Rightarrow> string" where
  "clean s = strip (collapse_spaces (remove_special (remove_mentions (remove_urls (lower s)))))"

subsection \<open>Stop words, tokens and lemmas\<close>

definition EMOTION_WORDS :: "string set" where
  "EMOTION_WORDS =
     {''not'', ''no'', ''never'', ''neither'', ''nobody'', ''nothing'', ''nowhere'',
      ''hardly'', ''barely'', ''scarcely'', ''rarely'', ''seldom''}"

text \<open>
  Lines 78-91, run once when the module is loaded. \<open>first\<close> is what
  \<^verbatim>\<open>stopwords.words('english')\<close> gives in the \<^verbatim>\<open>try\<close> block (it raises while the corpus is
  not installed), \<open>retry\<close> what it gives in the \<^verbatim>\<open>except\<close> block, after the download.
\<close>

definition init_stop_words :: "error + string list \<Rightarrow> string list \<Rightarrow> string set" where
  "init_stop_words first retry =
     (case first of
        Inr ws \<Rightarrow> set ws - EMOTION_WORDS
      | Inl e \<Rightarrow> set retry)"

record nlp =
  stop_words :: "string set"
  word_tokenize :: "string \<Rightarrow> error + string list"
  lemmatize :: "string \<Rightarrow> error + string"

text \<open>
  The list comprehension of lines 158-162: the tokens are visited in order, a token that
  passes the test is lemmatized, and the first exception ends the loop.
\<close>

fun lemmatize_kept :: "nlp \<Rightarrow> string list \<Rightarrow> error + string list" where
  "lemmatize_kept env [] = Inr []"
| "lemmatize_kept env (t # ts) =
     (if t \<notin> stop_words env \<and> 2 < length t
      then (case lemmatize env t of
              Inl e \<Rightarrow> Inl e
            | Inr l \<Rightarrow> (case lemmatize_kept env ts of
                         Inl e \<Rightarrow> Inl e
                       | Inr ls \<Rightarrow> Inr (l # ls)))
      else lemmatize_kept env ts)"

fun join :: "string list \<Rightarrow> string" where
  "join [] = []"
| "join [w] = w"
| "join (w # v # ws) = w @ CHR '' '' # join (v # ws)"

definition preprocess_text :: "nlp \<Rightarrow> pyval \<Rightarrow> error + string" where
  "preprocess_text env text =
     (case text of
        PyStr s \<Rightarrow>
          (case word_tokenize env (clean s) of
             Inl e \<Rightarrow> Inl e
           | Inr tokens \<Rightarrow>
               (case lemmatize_kept env tokens of
                  Inl e \<Rightarrow> Inl e
                | Inr processed_tokens \<Rightarrow> Inr (join processed_tokens)))
      | _ \<Rightarrow> Inr [])"

text \<open>\<^verbatim>\<open>preprocess_text(preprocess_text(x))\<close>: an exception of the inner call ends both.\<close>

definition preprocess_twice :: "nlp \<Rightarrow> pyval \<Rightarrow> error + string" where
  "preprocess_twice env text =
     (case preprocess_text env text of
        Inl e \<Rightarrow> Inl e
      | Inr y \<Rightarrow> preprocess_text env (PyStr y))"

subsection \<open>A small NLP library for concrete runs\<close>

text \<open>
  Modelled from the spec: NLTK is not part of the repository. Step 6 of the spec's
  pipeline is "Tokenize on word boundaries": on cleaned text, which holds letters and
  single blanks only, that is the split at white space. The lemma of a word is the word
  itself, and the stop words are a fragment of NLTK's English list.
\<close>

function split_words :: "string \<Rightarrow> string list" where
  "split_words s =
     (case dropWhile is_space s of
        [] \<Rightarrow> []
      | c # cs \<Rightarrow> (c # takeWhile non_space cs) # split_words (dropWhile non_space cs))"
  by pat_completeness auto
termination
proof (relation "measure length", goal_cases)
  case 1
  show ?case by simp
next
  case (2 s c cs)
  have "length (dropWhile non_space cs) \<le> length cs"
    by (rule length_dropWhile_le)
  moreover have "length (c # cs) \<le> length s"
    using length_dropWhile_le [of is_space s] 2 by simp
  ultimately show ?case by simp
qed

definition sample_stopwords :: "string list" where
  "sample_stopwords =
     [''i'', ''me'', ''my'', ''we'', ''you'', ''am'', ''is'', ''are'', ''was'', ''a'', ''an'',
      ''the'', ''and'', ''so'', ''to'', ''no'', ''nor'', ''not'', ''can'', ''have'']"

definition sample_nlp :: nlp where
  "sample_nlp =
     \<lparr> stop_words = init_stop_words (Inr sample_stopwords) sample_stopwords,
       word_tokenize = (\<lambda>s. Inr (split_words s)),
       lemmatize = (\<lambda>w. Inr w) \<rparr>"

text \<open>The same library when the stop word corpus was missing at the first attempt.\<close>

definition fallback_nlp :: nlp where
  "fallback_nlp =
     sample_nlp \<lparr> stop_words :=
       init_stop_words (Inl (Exception ''Resource stopwords not found.'')) sample_stopwords \<rparr>"

section \<open>Prediction\<close>

subsection \<open>Emotion configuration\<close>

record emotion_details =
  emoji :: string
  color :: string
  description :: string
  intensity :: string

text \<open>The glyphs, as UTF-8: U+1F60A, U+1F620, U+1F622, U+1F630, U+1F610 and U+2753.\<close>

definition smiling_face :: string where
  "smiling_face = [CHR 0xF0, CHR 0x9F, CHR 0x98, CHR 0x8A]"

definition angry_face :: string where
  "angry_face = [CHR 0xF0, CHR 0x9F, CHR 0x98, CHR 0xA0]"

definition crying_face :: string where
  "crying_face = [CHR 0xF0, CHR 0x9F, CHR 0x98, CHR 0xA2]"

definition anxious_face :: string where
  "anxious_face = [CHR 0xF0, CHR 0x9F, CHR 0x98, CHR 0xB0]"

definition neutral_face :: string where
  "neutral_face = [CHR 0xF0, CHR 0x9F, CHR 0x98, CHR 0x90]"

definition question_mark :: string where
  "question_mark = [CHR 0xE2, CHR 0x9D, CHR 0x93]"

definition EMOTION_CONFIG :: "(string \<times> emotion_details) list" where
  "EMOTION_CONFIG =
     [(''happiness'',
       \<lparr> emoji = smiling_face, color = ''#FFD700'',
         description = ''Joyful, content, or pleased feeling'', intensity = ''positive'' \<rparr>),
      (''anger'',
       \<lparr> emoji = angry_face, color = ''#DC143C'',
         description = ''Irritated, frustrated, or furious feeling'',
         intensity = ''negative'' \<rparr>),
      (''sadness'',
       \<lparr> emoji = crying_face, color = ''#4169E1'',
         description = ''Unhappy, sorrowful, or depressed feeling'',
         intensity = ''negative'' \<rparr>),
      (''stress'',
       \<lparr> emoji = anxious_face, color = ''#FF8C00'',
         description = ''Anxious, overwhelmed, or tense feeling'', intensity = ''negative'' \<rparr>),
      (''neutral'',
       \<lparr> emoji = neutral_face, color = ''#808080'',
         description = ''No strong emotion detected'', intensity = ''neutral'' \<rparr>)]"

text \<open>The default of \<^verbatim>\<open>EMOTION_CONFIG.get(emotion, {...})\<close> in \<^verbatim>\<open>predict\<close>.\<close>

definition unknown_details :: emotion_details where
  "unknown_details =
     \<lparr> emoji = question_mark, color = ''#000000'', description = ''Unknown emotion'',
       intensity = ''unknown'' \<rparr>"

subsection \<open>Numbers and dictionaries\<close>

text \<open>
  The floats of the source are taken as exact rationals. \<^verbatim>\<open>round(x, 2)\<close> is the nearest
  multiple of one hundredth, a tie going to the even one.
\<close>

definition round_half_even :: "rat \<Rightarrow> int" where
  "round_half_even x =
     (let f = \<lfloor>x\<rfloor>; d = x - of_int f
      in if d < 1 / 2 then f else if 1 / 2 < d then f + 1 else if even f then f else f + 1)"

definition round2 :: "rat \<Rightarrow> rat" where
  "round2 x = of_int (round_half_even (x * 100)) / 100"

text \<open>
  A \<^verbatim>\<open>dict\<close> keeps its keys in the order of their first insertion; storing under a key
  that is present replaces the value where the key stands.
\<close>

fun dict_set :: "'k \<Rightarrow> 'v \<Rightarrow> ('k \<times> 'v) list \<Rightarrow> ('k \<times> 'v) list" where
  "dict_set k v [] = [(k, v)]"
| "dict_set k v ((k', v') # d) =
     (if k' = k then (k, v) # d else (k', v') # dict_set k v d)"

definition dict_of :: "('k \<times> 'v) list \<Rightarrow> ('k \<times> 'v) list" where
  "dict_of kvs = foldl (\<lambda>d (k, v). dict_set k v d) [] kvs"

definition dict_get :: "('k \<times> 'v) list \<Rightarrow> 'k \<Rightarrow> 'v \<Rightarrow> 'v" where
  "dict_get d k dflt = (case map_of d k of Some v \<Rightarrow> v | None \<Rightarrow> dflt)"

text \<open>
  \<^verbatim>\<open>sorted(items, key=lambda x: x[1], reverse=True)\<close>: descending by value, and stable,
  so entries of equal value stay in their order.
\<close>

definition sort_descending :: "('k \<times> rat) list \<Rightarrow> ('k \<times> rat) list" where
  "sort_descending items = sort_key (\<lambda>x. - snd x) items"

text \<open>\<^verbatim>\<open>xs[0]\<close> and \<^verbatim>\<open>max(xs)\<close> raise on an empty sequence.\<close>

definition first_item :: "'a list \<Rightarrow> error + 'a" where
  "first_item xs =
     (case xs of
        [] \<Rightarrow> Inl (Exception ''index 0 is out of bounds for axis 0 with size 0'')
      | x # _ \<Rightarrow> Inr x)"

definition py_max :: "rat list \<Rightarrow> error + rat" where
  "py_max xs =
     (case xs of
        [] \<Rightarrow> Inl (Exception ''max() arg is an empty sequence'')
      | x # ys \<Rightarrow> Inr (fold max ys x))"

subsection \<open>The classifier and \<^verbatim>\<open>EmotionPredictor.predict\<close>\<close>

text \<open>
  The loaded artifacts: \<open>transform\<close> is \<^verbatim>\<open>vectorizer.transform([processed_text])\<close>,
  \<open>model_predict\<close> is \<^verbatim>\<open>model.predict\<close>, \<open>predict_proba\<close> is \<open>None\<close> when the model has no
  such attribute, and \<open>classes\<close> is \<^verbatim>\<open>model.classes_\<close>.
\<close>

record 'v classifier =
  transform :: "string \<Rightarrow> error + 'v"
  model_predict :: "'v \<Rightarrow> error + string list"
  predict_proba :: "('v \<Rightarrow> error + rat list list) option"
  classes :: "string list"

record prediction = emotion_details +
  emotion :: string
  confidence :: rat
  all_probabilities :: "(string \<times> rat) list"
  processed_text :: string
  original_text :: pyval

datatype result = Failure string | Success prediction

text \<open>Lines 192-208: the confidence and the distribution, sorted.\<close>

definition class_probabilities ::
  "'v classifier \<Rightarrow> 'v \<Rightarrow> string \<Rightarrow> error + rat \<times> (string \<times> rat) list" where
  "class_probabilities m text_vector label =
     (case predict_proba m of
        Some proba \<Rightarrow>
          (case proba text_vector of
             Inl e \<Rightarrow> Inl e
           | Inr rows \<Rightarrow>
               (case first_item rows of
                  Inl e \<Rightarrow> Inl e
                | Inr probabilities \<Rightarrow>
                    (case py_max probabilities of
                       Inl e \<Rightarrow> Inl e
                     | Inr conf \<Rightarrow>
                         Inr (conf,
                              dict_of (sort_descending
                                (dict_of (zip (classes m) probabilities)))))))
      | None \<Rightarrow> Inr (1, [(label, 1)]))"

definition emotion_details_of :: "string \<Rightarrow> emotion_details" where
  "emotion_details_of label =
     (case map_of EMOTION_CONFIG label of Some d \<Rightarrow> d | None \<Rightarrow> unknown_details)"

text \<open>The body of the \<^verbatim>\<open>try\<close> block of \<^verbatim>\<open>predict\<close>, lines 177-232.\<close>

definition predict_body :: "nlp \<Rightarrow> 'v classifier \<Rightarrow> pyval \<Rightarrow> error + result" where
  "predict_body env m text =
     (case preprocess_text env text of
        Inl e \<Rightarrow> Inl e
      | Inr ptext \<Rightarrow>
          if ptext = [] then Inr (Failure ''Text is empty after preprocessing'')
          else
            (case transform m ptext of
               Inl e \<Rightarrow> Inl e
             | Inr text_vector \<Rightarrow>
                 (case model_predict m text_vector of
                    Inl e \<Rightarrow> Inl e
                  | Inr labels \<Rightarrow>
                      (case first_item labels of
                         Inl e \<Rightarrow> Inl e
                       | Inr label \<Rightarrow>
                           (case class_probabilities m text_vector label of
                              Inl e \<Rightarrow> Inl e
                            | Inr (conf, probs) \<Rightarrow>
                                (let emotion_details = emotion_details_of label
                                 in Inr (Success
                                   \<lparr> emoji = emoji emotion_details,
                                     color = color emotion_details,
                                     description = description emotion_details,
                                     intensity = intensity emotion_details,
                                     emotion = label,
                                     confidence = round2 (conf * 100),
                                     all_probabilities =
                                       dict_of (map (\<lambda>(k, v). (k, round2 (v * 100)))
                                         (take 5 probs)),
                                     processed_text = ptext,
                                     original_text = text \<rparr>)))))))"

text \<open>The \<^verbatim>\<open>except Exception\<close> clause, lines 234-239.\<close>

definition predict :: "nlp \<Rightarrow> 'v classifier \<Rightarrow> pyval \<Rightarrow> result" where
  "predict env m text =
     (case predict_body env m text of
        Inl (Exception msg) \<Rightarrow> Failure msg
      | Inr r \<Rightarrow> r)"

section \<open>Endpoints\<close>

subsection \<open>Batch prediction\<close>

text \<open>
  \<^verbatim>\<open>predict_batch\<close> from line 384 on, where \<^verbatim>\<open>texts\<close> is known to be a list. Its items
  are whatever the request held, strings or not. A response is either the payload or an
  HTTP error status with its message.
\<close>

datatype 'a response = Ok 'a | Rejected nat string

definition predict_batch ::
  "nlp \<Rightarrow> 'v classifier \<Rightarrow> pyval list \<Rightarrow> (nat \<times> result list) response" where
  "predict_batch env m texts =
     (if 50 < length texts then Rejected 400 ''Maximum 50 texts allowed per batch''
      else (let results = foldl (\<lambda>results text. results @ [predict env m text]) [] texts
            in Ok (length results, results)))"

subsection \<open>History\<close>

record history_entry =
  entry_id :: string
  entry_timestamp :: string
  entry_text :: string
  entry_emotion :: string
  entry_confidence :: rat
  entry_emoji :: string

text \<open>Lines 338-342: \<^verbatim>\<open>insert(0, entry)\<close>, then \<^verbatim>\<open>pop()\<close> when more than 100 are held.\<close>

definition record_entry :: "history_entry \<Rightarrow> history_entry list \<Rightarrow> history_entry list" where
  "record_entry entry history =
     (let inserted = entry # history
      in if 100 < length inserted then butlast inserted else inserted)"

text \<open>
  Lines 328-342 of \<^verbatim>\<open>predict_emotion\<close>. The identifier and the time stamp come from
  \<^verbatim>\<open>uuid4\<close> and the clock; here the caller supplies them.
\<close>

definition save_prediction ::
  "string \<Rightarrow> string \<Rightarrow> string \<Rightarrow> bool \<Rightarrow> result \<Rightarrow> history_entry list \<Rightarrow> history_entry list"
  where
  "save_prediction uid now text save_history res history =
     (case res of
        Success r \<Rightarrow>
          if save_history
          then record_entry
                 \<lparr> entry_id = uid, entry_timestamp = now, entry_text = text,
                   entry_emotion = emotion r, entry_confidence = confidence r,
                   entry_emoji = emoji r \<rparr> history
          else history
      | Failure err \<Rightarrow> history)"

definition record_all :: "history_entry list \<Rightarrow> history_entry list \<Rightarrow> history_entry list" where
  "record_all entries history = foldl (\<lambda>h e. record_entry e h) history entries"

subsection \<open>Conversation analysis\<close>

text \<open>A message is a JSON object: its fields in order, under distinct keys.\<close>

type_synonym message = "(string \<times> pyval) list"

record bucket =
  bucket_count :: nat
  percentage :: rat

record conversation_summary =
  total_messages :: nat
  dominant_emotion :: string
  dominant_emoji :: string
  average_confidence :: rat
  emotion_distribution :: "(string \<times> nat) list"
  positive :: bucket
  negative :: bucket
  neutral :: bucket
  analyzed_messages :: "message list"

text \<open>\<^verbatim>\<open>emotion_counts[emotion] = emotion_counts.get(emotion, 0) + 1\<close>.\<close>

definition count_label :: "('k \<times> nat) list \<Rightarrow> 'k \<Rightarrow> ('k \<times> nat) list" where
  "count_label emotion_counts label = dict_set label (dict_get emotion_counts label 0 + 1) emotion_counts"

text \<open>The body of the loop of lines 492-507, on the three variables it updates.\<close>

definition analyze_message ::
  "nlp \<Rightarrow> 'v classifier \<Rightarrow> message list \<times> (string \<times> nat) list \<times> rat \<Rightarrow> message
     \<Rightarrow> message list \<times> (string \<times> nat) list \<times> rat" where
  "analyze_message env m st msg =
     (case st of
        (analyzed, emotion_counts, total_confidence) \<Rightarrow>
          (case map_of msg ''text'' of
             None \<Rightarrow> st
           | Some text \<Rightarrow>
               (case predict env m text of
                  Failure err \<Rightarrow> st
                | Success r \<Rightarrow>
                    (analyzed @
                       [dict_set ''emoji'' (PyStr (emoji r))
                          (dict_set ''confidence'' (PyNum (confidence r))
                             (dict_set ''emotion'' (PyStr (emotion r)) msg))],
                     count_label emotion_counts (emotion r),
                     total_confidence + confidence r))))"

text \<open>
  \<^verbatim>\<open>max(emotion_counts, key=emotion_counts.get)\<close> visits the keys in the order of the
  dictionary and replaces the key it holds only by one of a strictly greater count. The
  keys are distinct, so the count of a key is the value it is paired with.
\<close>

definition max_key :: "'k \<times> nat \<Rightarrow> ('k \<times> nat) list \<Rightarrow> 'k" where
  "max_key start items =
     fst (fold (\<lambda>(k, v) (bk, bv). if bv < v then (k, v) else (bk, bv)) items start)"

definition dominant :: "(string \<times> nat) list \<Rightarrow> string" where
  "dominant emotion_counts =
     (case emotion_counts of [] \<Rightarrow> ''neutral'' | item # items \<Rightarrow> max_key item items)"

definition percent :: "nat \<Rightarrow> nat \<Rightarrow> rat" where
  "percent n total_n = (if 0 < total_n then round2 (of_nat n / of_nat total_n * 100) else 0)"

definition analyze_conversation ::
  "nlp \<Rightarrow> 'v classifier \<Rightarrow> message list \<Rightarrow> conversation_summary" where
  "analyze_conversation env m messages =
     (case foldl (analyze_message env m) ([], [], 0) messages of
        (analyzed, emotion_counts, total_confidence) \<Rightarrow>
          (let dominant_label = dominant emotion_counts;
               avg_confidence =
                 (if analyzed = [] then 0 else total_confidence / of_nat (length analyzed));
               positive_count = sum_list (map (\<lambda>e. dict_get emotion_counts e 0) [''happiness'']);
               negative_count =
                 sum_list (map (\<lambda>e. dict_get emotion_counts e 0)
                   [''anger'', ''sadness'', ''stress'']);
               neutral_count = dict_get emotion_counts ''neutral'' 0;
               total_n = length analyzed
           in \<lparr> total_messages = total_n,
                dominant_emotion = dominant_label,
                dominant_emoji =
                  (case map_of EMOTION_CONFIG dominant_label of
                     Some d \<Rightarrow> emoji d
                   | None \<Rightarrow> neutral_face),
                average_confidence = round2 avg_confidence,
                emotion_distribution = emotion_counts,
                positive = \<lparr> bucket_count = positive_count,
                             percentage = percent positive_count total_n \<rparr>,
                negative = \<lparr> bucket_count = negative_count,
                             percentage = percent negative_count total_n \<rparr>,
                neutral = \<lparr> bucket_count = neutral_count,
                            percentage = percent neutral_count total_n \<rparr>,
                analyzed_messages = analyzed \<rparr>))"

subsection \<open>A small classifier for concrete runs\<close>

text \<open>
  Modelled from the spec: the classifier is "an opaque pre-trained model" with a
  feature transformer. This one takes the normalised text itself as the feature vector,
  knows six classes, one of them outside \<open>EMOTION_CONFIG\<close>, and fails on one text.
\<close>

definition sample_label :: "string \<Rightarrow> string" where
  "sample_label v =
     (if v = ''happy'' \<or> v = ''glad'' then ''happiness''
      else if v = ''furious'' then ''anger''
      else if v = ''thrilled'' then ''joy''
      else ''neutral'')"

definition sample_proba :: "string \<Rightarrow> rat list" where
  "sample_proba v =
     (if v = ''happy'' then [5 / 100, 70 / 100, 10 / 100, 5 / 100, 5 / 100, 5 / 100]
      else if v = ''glad'' then [2 / 100, 9001 / 10000, 2 / 100, 2 / 100, 299 / 10000, 2 / 100]
      else if v = ''furious'' then [60 / 100, 2 / 100, 3 / 100, 5 / 100, 10 / 100, 20 / 100]
      else if v = ''thrilled'' then [1 / 100, 30 / 100, 45 / 100, 4 / 100, 10 / 100, 10 / 100]
      else [10 / 100, 10 / 100, 10 / 100, 50 / 100, 10 / 100, 10 / 100])"

definition sample_model :: "string classifier" where
  "sample_model =
     \<lparr> transform =
         (\<lambda>t. if t = ''crash'' then Inl (Exception ''vectorizer failed'') else Inr t),
       model_predict = (\<lambda>v. Inr [sample_label v]),
       predict_proba = Some (\<lambda>v. Inr [sample_proba v]),
       classes = [''anger'', ''happiness'', ''joy'', ''neutral'', ''sadness'', ''stress''] \<rparr>"

text \<open>The same model without \<^verbatim>\<open>predict_proba\<close>.\<close>

definition point_model :: "string classifier" where
  "point_model = sample_model \<lparr> predict_proba := None \<rparr>"

text \<open>A model whose every call raises.\<close>

definition broken_model :: "string classifier" where
  "broken_model =
     \<lparr> transform = (\<lambda>t. Inl (Exception ''vectorizer failed'')),
       model_predict = (\<lambda>v. Inl (Exception ''model failed'')),
       predict_proba = Some (\<lambda>v. Inl (Exception ''model failed'')),
       classes = [] \<rparr>"

text \<open>History entries that differ in their identifier.\<close>

definition numbered_entry :: "nat \<Rightarrow> history_entry" where
  "numbered_entry i =
     \<lparr> entry_id = replicate i (CHR ''x''), entry_timestamp = ''2026-02-06T00:00:00'',
       entry_text = ''happy'', entry_emotion = ''happiness'', entry_confidence = 70,
       entry_emoji = smiling_face \<rparr>"

text \<open>Libraries and models that fail at one place each.\<close>

definition no_punkt_nlp :: nlp where
  "no_punkt_nlp =
     sample_nlp \<lparr> word_tokenize := (\<lambda>s. Inl (Exception ''Resource punkt not found.'')) \<rparr>"

definition no_wordnet_nlp :: nlp where
  "no_wordnet_nlp =
     sample_nlp \<lparr> lemmatize := (\<lambda>w. Inl (Exception ''Resource wordnet not found.'')) \<rparr>"

definition no_predict_model :: "string classifier" where
  "no_predict_model =
     sample_model \<lparr> model_predict := (\<lambda>v. Inl (Exception ''model failed'')) \<rparr>"

definition no_proba_model :: "string classifier" where
  "no_proba_model =
     sample_model \<lparr> predict_proba := Some (\<lambda>v. Inl (Exception ''probabilities failed'')) \<rparr>"






section \<open>Properties\<close>

subsection \<open>Degenerate input\<close>

lemma preprocess_text_not_str: "\<not> is_str text \<Longrightarrow> preprocess_text env text = Inr []"
  by (cases "text") (simp_all add: is_str_def preprocess_text_def)

lemma predict_of_empty:
  "preprocess_text env text = Inr [] \<Longrightarrow>
   predict env m text = Failure ''Text is empty after preprocessing''"
  by (simp add: predict_def predict_body_def)

text \<open>
  Claim C3. Whenever the input is not a string, or its normalisation is the empty string,
  \<^verbatim>\<open>predict\<close> returns the failure whose error is exactly "Text is empty after
  preprocessing". The empty input is such an input as soon as the tokenizer gives no
  token for the empty text. The result is the same for every classifier, also for one
  whose every call raises: no classification is attempted.
\<close>

theorem predict_empty_after_preprocessing:
  "(\<not> is_str text \<or> preprocess_text env text = Inr [] \<longrightarrow>
      predict env m text = Failure ''Text is empty after preprocessing'') \<and>
   (word_tokenize env [] = Inr [] \<longrightarrow>
      predict env m (PyStr []) = Failure ''Text is empty after preprocessing'')"
proof (intro conjI impI)
  assume "\<not> is_str text \<or> preprocess_text env text = Inr []"
  then have "preprocess_text env text = Inr []"
    using preprocess_text_not_str by blast
  then show "predict env m text = Failure ''Text is empty after preprocessing''"
    by (rule predict_of_empty)
next
  assume "word_tokenize env [] = Inr []"
  moreover have "clean [] = []"
    by (simp add: clean_def lower_def remove_urls_def remove_mentions_def
        remove_special_def strip_def)
  ultimately have "preprocess_text env (PyStr []) = Inr []"
    by (simp add: preprocess_text_def)
  then show "predict env m (PyStr []) = Failure ''Text is empty after preprocessing''"
    by (rule predict_of_empty)
qed

theorem predict_empty_after_preprocessing_witness:
  "\<not> is_str (PyNum 3) \<and>
   predict sample_nlp broken_model (PyNum 3) = Failure ''Text is empty after preprocessing'' \<and>
   preprocess_text sample_nlp (PyStr ''http://x.com #tag @mention !!! 123'') = Inr [] \<and>
   predict sample_nlp broken_model (PyStr ''http://x.com #tag @mention !!! 123'') =
     Failure ''Text is empty after preprocessing'' \<and>
   word_tokenize sample_nlp [] = Inr [] \<and>
   predict sample_nlp broken_model (PyStr []) = Failure ''Text is empty after preprocessing''"
proof -
  have a: "\<not> is_str (PyNum 3)"
    by (simp add: is_str_def)
  have b: "preprocess_text sample_nlp (PyStr ''http://x.com #tag @mention !!! 123'') = Inr []"
    by code_simp
  have c: "word_tokenize sample_nlp [] = Inr []"
    by code_simp
  show ?thesis
    using a b c
      predict_empty_after_preprocessing [of "PyNum 3" sample_nlp broken_model]
      predict_empty_after_preprocessing
        [of "PyStr ''http://x.com #tag @mention !!! 123''" sample_nlp broken_model]
    by blast
qed

subsection \<open>Batches\<close>

lemma foldl_snoc_map: "foldl (\<lambda>acc x. acc @ [f x]) acc xs = acc @ map f xs"
  by (induction xs arbitrary: acc) simp_all

text \<open>
  Claim C4. A batch of at most 50 texts is answered by as many results, in the order of
  the texts, the i-th being the prediction for the i-th text on its own, failures
  included. A batch of more than 50 texts is rejected with status 400, whatever the
  predictor is: no prediction has run.
\<close>

theorem predict_batch_results:
  "(length texts \<le> 50 \<longrightarrow>
      predict_batch env m texts = Ok (length texts, map (predict env m) texts)) \<and>
   (50 < length texts \<longrightarrow>
      predict_batch env m texts = Rejected 400 ''Maximum 50 texts allowed per batch'')"
  by (simp add: predict_batch_def foldl_snoc_map)

theorem predict_batch_results_witness:
  "length [PyStr ''happy'', PyNum 1, PyStr ''crash''] \<le> 50 \<and>
   predict_batch sample_nlp sample_model [PyStr ''happy'', PyNum 1, PyStr ''crash''] =
     Ok (3, [predict sample_nlp sample_model (PyStr ''happy''),
             Failure ''Text is empty after preprocessing'',
             Failure ''vectorizer failed'']) \<and>
   50 < length (replicate 51 (PyStr ''happy'')) \<and>
   predict_batch sample_nlp broken_model (replicate 51 (PyStr ''happy'')) =
     Rejected 400 ''Maximum 50 texts allowed per batch''"
proof -
  have a: "predict sample_nlp sample_model (PyNum 1) = Failure ''Text is empty after preprocessing''"
    by code_simp
  have b: "predict sample_nlp sample_model (PyStr ''crash'') = Failure ''vectorizer failed''"
    by code_simp
  show ?thesis
    using a b
      predict_batch_results [of "[PyStr ''happy'', PyNum 1, PyStr ''crash'']" sample_nlp sample_model]
      predict_batch_results [of "replicate 51 (PyStr ''happy'')" sample_nlp broken_model]
    by simp
qed

subsection \<open>The history\<close>

lemma record_entry_take:
  "length h \<le> 100 \<Longrightarrow> record_entry e h = take 100 (e # h)"
proof (cases "length h = 100")
  case True
  then have "butlast (e # h) = take 100 (e # h)"
    by (simp add: butlast_conv_take)
  with True show ?thesis by (simp add: record_entry_def)
next
  case False
  assume "length h \<le> 100"
  with False show ?thesis by (simp add: record_entry_def)
qed

lemma take_append_take: "take n (xs @ take n ys) = take n (xs @ ys)"
  by (simp add: min_def)

lemma record_all_take:
  "length h \<le> 100 \<Longrightarrow> record_all es h = take 100 (rev es @ h)"
proof (induction es arbitrary: h)
  case Nil
  then show ?case by (simp add: record_all_def)
next
  case (Cons e es)
  have len: "length (record_entry e h) \<le> 100"
    using Cons.prems by (simp add: record_entry_take)
  have "record_all (e # es) h = record_all es (record_entry e h)"
    by (simp add: record_all_def)
  also have "\<dots> = take 100 (rev es @ record_entry e h)"
    using Cons.IH [OF len] .
  also have "\<dots> = take 100 (rev es @ take 100 (e # h))"
    using Cons.prems by (simp only: record_entry_take)
  also have "\<dots> = take 100 (rev es @ e # h)"
    by (rule take_append_take)
  finally show ?case by simp
qed

text \<open>
  Claim C5. On a history of at most 100 entries, recording puts the new entry at index 0
  and drops the last entry exactly when 100 were held, so at most 100 are held
  afterwards. Recording a sequence of entries into the empty history leaves the 100 most
  recent ones, the most recent first, and never more than 100; after 150 recordings
  exactly 100 entries are held and the first 50 recorded are gone.
\<close>

theorem history_bounded:
  "(length h \<le> 100 \<longrightarrow>
      record_entry e h = (if length h = 100 then e # butlast h else e # h) \<and>
      length (record_entry e h) \<le> 100) \<and>
   record_all es [] = take 100 (rev es) \<and>
   length (record_all es []) \<le> 100 \<and>
   (length es = 150 \<longrightarrow>
      record_all es [] = rev (drop 50 es) \<and> length (record_all es []) = 100)"
proof (intro conjI impI)
  assume h: "length h \<le> 100"
  show "record_entry e h = (if length h = 100 then e # butlast h else e # h)"
    using h by (cases h) (auto simp: record_entry_def)
  show "length (record_entry e h) \<le> 100"
    using h by (simp add: record_entry_take)
next
  show all: "record_all es [] = take 100 (rev es)"
    using record_all_take [of "[]" es] by simp
  show "length (record_all es []) \<le> 100"
    by (simp add: all)
  assume n: "length es = 150"
  have "take 100 (rev es) = rev (drop (length es - 100) es)"
    by (simp add: take_rev)
  with n show "record_all es [] = rev (drop 50 es)"
    by (simp add: all)
  show "length (record_all es []) = 100"
    using n by (simp add: all)
qed

theorem history_bounded_witness:
  "length (map numbered_entry [0..<150]) = 150 \<and>
   record_all (map numbered_entry [0..<150]) [] = rev (drop 50 (map numbered_entry [0..<150])) \<and>
   length (record_all (map numbered_entry [0..<150]) []) = 100 \<and>
   length (replicate 100 (numbered_entry 0)) \<le> 100 \<and>
   record_entry (numbered_entry 1) (replicate 100 (numbered_entry 0)) =
     numbered_entry 1 # butlast (replicate 100 (numbered_entry 0))"
proof -
  define es where "es = map numbered_entry [0..<150]"
  define h where "h = replicate 100 (numbered_entry 0)"
  have n: "length es = 150"
    by (simp add: es_def)
  have k: "length h \<le> 100" "length h = 100"
    by (simp_all add: h_def)
  have "length es = 150 \<and> record_all es [] = rev (drop 50 es) \<and>
    length (record_all es []) = 100 \<and> length h \<le> 100 \<and>
    record_entry (numbered_entry 1) h = numbered_entry 1 # butlast h"
    using n k history_bounded [of h "numbered_entry 1" es] by auto
  then show ?thesis
    unfolding es_def h_def .
qed

subsection \<open>Exceptions\<close>

lemma predict_cases:
  "(\<exists>r. predict_body env m text = Inr r \<and> predict env m text = r) \<or>
   (\<exists>msg. predict_body env m text = Inl (Exception msg) \<and> predict env m text = Failure msg)"
proof (cases "predict_body env m text")
  case (Inl e)
  then show ?thesis by (cases e) (simp add: predict_def)
next
  case (Inr r)
  then show ?thesis by (simp add: predict_def)
qed

text \<open>
  Claim C8. \<^verbatim>\<open>predict\<close> returns a value on every input. An exception raised by the
  tokenizer, by the lemmatizer, by the feature transformation, by the model's prediction
  or by its probability estimate ends the \<^verbatim>\<open>try\<close> block and comes back as the failure
  whose error is the message of the exception; in every case the result is what the block
  returned, or the failure made from what it raised.
\<close>

theorem predict_never_raises:
  "(word_tokenize env (clean s) = Inl (Exception msg) \<longrightarrow>
      predict env m (PyStr s) = Failure msg) \<and>
   (word_tokenize env (clean s) = Inr tokens \<and>
    lemmatize_kept env tokens = Inl (Exception msg) \<longrightarrow>
      predict env m (PyStr s) = Failure msg) \<and>
   (preprocess_text env text = Inr p \<and> p \<noteq> [] \<and>
    transform m p = Inl (Exception msg) \<longrightarrow>
      predict env m text = Failure msg) \<and>
   (preprocess_text env text = Inr p \<and> p \<noteq> [] \<and> transform m p = Inr v \<and>
    model_predict m v = Inl (Exception msg) \<longrightarrow>
      predict env m text = Failure msg) \<and>
   (preprocess_text env text = Inr p \<and> p \<noteq> [] \<and> transform m p = Inr v \<and>
    model_predict m v = Inr (label # rest) \<and>
    predict_proba m = Some proba \<and> proba v = Inl (Exception msg) \<longrightarrow>
      predict env m text = Failure msg) \<and>
   ((\<exists>r. predict_body env m text = Inr r \<and> predict env m text = r) \<or>
    (\<exists>msg'. predict_body env m text = Inl (Exception msg') \<and>
       predict env m text = Failure msg'))"
proof (intro conjI impI)
  assume "word_tokenize env (clean s) = Inl (Exception msg)"
  then show "predict env m (PyStr s) = Failure msg"
    by (simp add: predict_def predict_body_def preprocess_text_def)
next
  assume "word_tokenize env (clean s) = Inr tokens \<and>
    lemmatize_kept env tokens = Inl (Exception msg)"
  then show "predict env m (PyStr s) = Failure msg"
    by (simp add: predict_def predict_body_def preprocess_text_def)
next
  assume "preprocess_text env text = Inr p \<and> p \<noteq> [] \<and> transform m p = Inl (Exception msg)"
  then show "predict env m text = Failure msg"
    by (simp add: predict_def predict_body_def)
next
  assume "preprocess_text env text = Inr p \<and> p \<noteq> [] \<and> transform m p = Inr v \<and>
    model_predict m v = Inl (Exception msg)"
  then show "predict env m text = Failure msg"
    by (simp add: predict_def predict_body_def)
next
  assume "preprocess_text env text = Inr p \<and> p \<noteq> [] \<and> transform m p = Inr v \<and>
    model_predict m v = Inr (label # rest) \<and>
    predict_proba m = Some proba \<and> proba v = Inl (Exception msg)"
  then show "predict env m text = Failure msg"
    by (simp add: predict_def predict_body_def first_item_def class_probabilities_def)
next
  show "(\<exists>r. predict_body env m text = Inr r \<and> predict env m text = r) \<or>
    (\<exists>msg'. predict_body env m text = Inl (Exception msg') \<and>
       predict env m text = Failure msg')"
    by (rule predict_cases)
qed


theorem predict_never_raises_witness:
  "word_tokenize no_punkt_nlp (clean ''I am happy'') = Inl (Exception ''Resource punkt not found.'') \<and>
   predict no_punkt_nlp sample_model (PyStr ''I am happy'') = Failure ''Resource punkt not found.'' \<and>
   word_tokenize no_wordnet_nlp (clean ''I am happy'') = Inr [''i'', ''am'', ''happy''] \<and>
   lemmatize_kept no_wordnet_nlp [''i'', ''am'', ''happy''] =
     Inl (Exception ''Resource wordnet not found.'') \<and>
   predict no_wordnet_nlp sample_model (PyStr ''I am happy'') =
     Failure ''Resource wordnet not found.'' \<and>
   preprocess_text sample_nlp (PyStr ''I am happy'') = Inr ''happy'' \<and>
   transform broken_model ''happy'' = Inl (Exception ''vectorizer failed'') \<and>
   predict sample_nlp broken_model (PyStr ''I am happy'') = Failure ''vectorizer failed'' \<and>
   model_predict no_predict_model ''happy'' = Inl (Exception ''model failed'') \<and>
   predict sample_nlp no_predict_model (PyStr ''I am happy'') = Failure ''model failed'' \<and>
   model_predict no_proba_model ''happy'' = Inr [''happiness''] \<and>
   predict sample_nlp no_proba_model (PyStr ''I am happy'') = Failure ''probabilities failed''"
proof -
  note t1 = predict_never_raises [THEN conjunct1, rule_format]
  note t2 = predict_never_raises [THEN conjunct2, THEN conjunct1, rule_format]
  note t3 = predict_never_raises [THEN conjunct2, THEN conjunct2, THEN conjunct1, rule_format]
  note t4 = predict_never_raises
    [THEN conjunct2, THEN conjunct2, THEN conjunct2, THEN conjunct1, rule_format]
  note t5 = predict_never_raises
    [THEN conjunct2, THEN conjunct2, THEN conjunct2, THEN conjunct2, THEN conjunct1, rule_format]
  have a: "word_tokenize no_punkt_nlp (clean ''I am happy'') =
      Inl (Exception ''Resource punkt not found.'')"
    by (simp add: no_punkt_nlp_def)
  have a': "predict no_punkt_nlp sample_model (PyStr ''I am happy'') =
      Failure ''Resource punkt not found.''"
    by (rule t1 [OF a])
  have b: "word_tokenize no_wordnet_nlp (clean ''I am happy'') = Inr [''i'', ''am'', ''happy'']"
    by code_simp
  have c: "lemmatize_kept no_wordnet_nlp [''i'', ''am'', ''happy''] =
      Inl (Exception ''Resource wordnet not found.'')"
    by code_simp
  have c': "predict no_wordnet_nlp sample_model (PyStr ''I am happy'') =
      Failure ''Resource wordnet not found.''"
    by (rule t2 [OF conjI [OF b c]])
  have d: "preprocess_text sample_nlp (PyStr ''I am happy'') = Inr ''happy''"
    by code_simp
  have n: "''happy'' \<noteq> []"
    by simp
  have e: "transform broken_model ''happy'' = Inl (Exception ''vectorizer failed'')"
    by (simp add: broken_model_def)
  have e': "predict sample_nlp broken_model (PyStr ''I am happy'') = Failure ''vectorizer failed''"
    by (rule t3 [where p = "''happy''"]) (intro conjI d n e)
  have f: "transform no_predict_model ''happy'' = Inr ''happy''"
    "model_predict no_predict_model ''happy'' = Inl (Exception ''model failed'')"
    by (simp_all add: no_predict_model_def sample_model_def)
  have f': "predict sample_nlp no_predict_model (PyStr ''I am happy'') = Failure ''model failed''"
    by (rule t4 [where p = "''happy''" and v = "''happy''"]) (intro conjI d n f)
  have g: "transform no_proba_model ''happy'' = Inr ''happy''"
    "model_predict no_proba_model ''happy'' = Inr [''happiness'']"
    "predict_proba no_proba_model = Some (\<lambda>v. Inl (Exception ''probabilities failed''))"
    by (simp_all add: no_proba_model_def sample_model_def sample_label_def)
  have g': "predict sample_nlp no_proba_model (PyStr ''I am happy'') =
      Failure ''probabilities failed''"
    by (rule t5 [where p = "''happy''" and v = "''happy''" and label = "''happiness''"
          and rest = "[]" and proba = "\<lambda>v. Inl (Exception ''probabilities failed'')"])
      (intro conjI d n g refl)
  show ?thesis
    using a a' b c c' d e e' f(2) f' g(2) g' by (intro conjI)
qed

subsection \<open>Labels outside the configuration\<close>

lemma unknown_label_lookup:
  "label \<notin> {''happiness'', ''anger'', ''sadness'', ''stress'', ''neutral''} \<Longrightarrow>
   map_of EMOTION_CONFIG label = None"
  by (simp add: EMOTION_CONFIG_def)

text \<open>
  Claim C9. When classification succeeds with a label outside happiness, anger, sadness,
  stress and neutral, \<^verbatim>\<open>predict\<close> still returns a success; its label is the one the
  classifier gave and its details are the sentinel ones: the question mark glyph, colour
  "#000000", description "Unknown emotion" and intensity "unknown".
\<close>

theorem unknown_label_sentinel:
  "preprocess_text env text = Inr p \<and> p \<noteq> [] \<and> transform m p = Inr v \<and>
   model_predict m v = Inr (label # rest) \<and>
   class_probabilities m v label = Inr (conf, probs) \<and>
   label \<notin> {''happiness'', ''anger'', ''sadness'', ''stress'', ''neutral''} \<longrightarrow>
   (\<exists>r. predict env m text = Success r \<and> emotion r = label \<and>
        emoji r = question_mark \<and> color r = ''#000000'' \<and>
        description r = ''Unknown emotion'' \<and> intensity r = ''unknown'')"
proof
  assume h: "preprocess_text env text = Inr p \<and> p \<noteq> [] \<and> transform m p = Inr v \<and>
   model_predict m v = Inr (label # rest) \<and>
   class_probabilities m v label = Inr (conf, probs) \<and>
   label \<notin> {''happiness'', ''anger'', ''sadness'', ''stress'', ''neutral''}"
  then have "emotion_details_of label = unknown_details"
    by (simp add: emotion_details_of_def unknown_label_lookup)
  with h show "\<exists>r. predict env m text = Success r \<and> emotion r = label \<and>
        emoji r = question_mark \<and> color r = ''#000000'' \<and>
        description r = ''Unknown emotion'' \<and> intensity r = ''unknown''"
    by (simp add: predict_def predict_body_def first_item_def unknown_details_def)
qed

theorem unknown_label_sentinel_witness:
  "preprocess_text sample_nlp (PyStr ''Thrilled!'') = Inr ''thrilled'' \<and>
   model_predict sample_model ''thrilled'' = Inr [''joy''] \<and>
   ''joy'' \<notin> {''happiness'', ''anger'', ''sadness'', ''stress'', ''neutral''} \<and>
   (\<exists>r. predict sample_nlp sample_model (PyStr ''Thrilled!'') = Success r \<and>
        emotion r = ''joy'' \<and> emoji r = question_mark \<and> color r = ''#000000'' \<and>
        description r = ''Unknown emotion'' \<and> intensity r = ''unknown'')"
proof -
  have a: "preprocess_text sample_nlp (PyStr ''Thrilled!'') = Inr ''thrilled''"
    by code_simp
  have b: "transform sample_model ''thrilled'' = Inr ''thrilled''"
    "model_predict sample_model ''thrilled'' = Inr [''joy'']"
    by (simp_all add: sample_model_def sample_label_def)
  have c: "class_probabilities sample_model ''thrilled'' ''joy'' =
    Inr (45 / 100, [(''joy'', 45 / 100), (''happiness'', 30 / 100), (''sadness'', 10 / 100),
      (''stress'', 10 / 100), (''neutral'', 4 / 100), (''anger'', 1 / 100)])"
    by code_simp
  have d: "''joy'' \<notin> {''happiness'', ''anger'', ''sadness'', ''stress'', ''neutral''}"
    by simp
  have n: "''thrilled'' \<noteq> []"
    by simp
  have "\<exists>r. predict sample_nlp sample_model (PyStr ''Thrilled!'') = Success r \<and>
        emotion r = ''joy'' \<and> emoji r = question_mark \<and> color r = ''#000000'' \<and>
        description r = ''Unknown emotion'' \<and> intensity r = ''unknown''"
    by (rule unknown_label_sentinel
          [where p = "''thrilled''" and v = "''thrilled''" and rest = "[]"
             and conf = "45 / 100"
             and probs = "[(''joy'', 45 / 100), (''happiness'', 30 / 100),
               (''sadness'', 10 / 100), (''stress'', 10 / 100), (''neutral'', 4 / 100),
               (''anger'', 1 / 100)]", rule_format])
      (intro conjI a n b c d)
  with a b(2) d show ?thesis
    by (intro conjI)
qed

subsection \<open>The glyph of the dominant emotion\<close>

lemma dominant_emoji_eq:
  "dominant_emoji (analyze_conversation env m messages) =
     (case map_of EMOTION_CONFIG (dominant_emotion (analyze_conversation env m messages)) of
        Some d \<Rightarrow> emoji d
      | None \<Rightarrow> neutral_face)"
  by (simp add: analyze_conversation_def Let_def split: prod.splits)

text \<open>
  Claim C10. In the summary of a conversation, a dominant emotion outside the five known
  labels has the neutral face as its glyph, which is not the question mark that
  \<^verbatim>\<open>predict\<close> gives to unknown labels; a known dominant emotion has the glyph of its
  configuration.
\<close>

theorem dominant_emoji_lookup:
  "S = analyze_conversation env m messages \<longrightarrow>
   (dominant_emotion S \<notin> {''happiness'', ''anger'', ''sadness'', ''stress'', ''neutral''} \<longrightarrow>
      dominant_emoji S = neutral_face \<and> dominant_emoji S \<noteq> question_mark) \<and>
   (dominant_emotion S = ''happiness'' \<longrightarrow> dominant_emoji S = smiling_face) \<and>
   (dominant_emotion S = ''anger'' \<longrightarrow> dominant_emoji S = angry_face) \<and>
   (dominant_emotion S = ''sadness'' \<longrightarrow> dominant_emoji S = crying_face) \<and>
   (dominant_emotion S = ''stress'' \<longrightarrow> dominant_emoji S = anxious_face) \<and>
   (dominant_emotion S = ''neutral'' \<longrightarrow> dominant_emoji S = neutral_face)"
proof
  assume S: "S = analyze_conversation env m messages"
  have eq: "dominant_emoji S =
     (case map_of EMOTION_CONFIG (dominant_emotion S) of
        Some d \<Rightarrow> emoji d | None \<Rightarrow> neutral_face)"
    unfolding S by (rule dominant_emoji_eq)
  have ne: "neutral_face \<noteq> question_mark"
    by (simp add: neutral_face_def question_mark_def)
  show "(dominant_emotion S \<notin> {''happiness'', ''anger'', ''sadness'', ''stress'', ''neutral''} \<longrightarrow>
      dominant_emoji S = neutral_face \<and> dominant_emoji S \<noteq> question_mark) \<and>
   (dominant_emotion S = ''happiness'' \<longrightarrow> dominant_emoji S = smiling_face) \<and>
   (dominant_emotion S = ''anger'' \<longrightarrow> dominant_emoji S = angry_face) \<and>
   (dominant_emotion S = ''sadness'' \<longrightarrow> dominant_emoji S = crying_face) \<and>
   (dominant_emotion S = ''stress'' \<longrightarrow> dominant_emoji S = anxious_face) \<and>
   (dominant_emotion S = ''neutral'' \<longrightarrow> dominant_emoji S = neutral_face)"
  proof (intro conjI impI)
    assume "dominant_emotion S \<notin> {''happiness'', ''anger'', ''sadness'', ''stress'', ''neutral''}"
    then have "map_of EMOTION_CONFIG (dominant_emotion S) = None"
      by (rule unknown_label_lookup)
    then show "dominant_emoji S = neutral_face"
      by (simp add: eq)
    with ne show "dominant_emoji S \<noteq> question_mark"
      by simp
  qed (simp_all add: eq EMOTION_CONFIG_def)
qed

theorem dominant_emoji_lookup_witness:
  "dominant_emotion (analyze_conversation sample_nlp sample_model [[(''text'', PyStr ''thrilled'')]])
     \<notin> {''happiness'', ''anger'', ''sadness'', ''stress'', ''neutral''} \<and>
   dominant_emoji (analyze_conversation sample_nlp sample_model [[(''text'', PyStr ''thrilled'')]])
     = neutral_face \<and>
   dominant_emotion (analyze_conversation sample_nlp sample_model [[(''text'', PyStr ''furious'')]])
     = ''anger'' \<and>
   dominant_emoji (analyze_conversation sample_nlp sample_model [[(''text'', PyStr ''furious'')]])
     = angry_face"
proof -
  have a: "dominant_emotion
      (analyze_conversation sample_nlp sample_model [[(''text'', PyStr ''thrilled'')]]) = ''joy''"
    by code_simp
  have b: "dominant_emotion
      (analyze_conversation sample_nlp sample_model [[(''text'', PyStr ''furious'')]]) = ''anger''"
    by code_simp
  have a': "dominant_emotion
      (analyze_conversation sample_nlp sample_model [[(''text'', PyStr ''thrilled'')]])
     \<notin> {''happiness'', ''anger'', ''sadness'', ''stress'', ''neutral''}"
    unfolding a by simp
  note t = dominant_emoji_lookup [rule_format, OF refl]
  show ?thesis
    using a' b t [THEN conjunct1, rule_format, OF a', THEN conjunct1]
      t [THEN conjunct2, THEN conjunct2, THEN conjunct1, rule_format, OF b]
    by (intro conjI)
qed

subsection \<open>Confidence and the ranked distribution\<close>























subsection \<open>Dominant emotion and average confidence\<close>


















subsection \<open>Normalising twice\<close>

lemma lower_not_space: "is_lower c \<Longrightarrow> \<not> is_space c"
  by (auto simp: is_lower_def is_space_def Let_def)

lemma lower_not_upper: "is_lower c \<Longrightarrow> \<not> is_upper c"
  by (auto simp: is_lower_def is_upper_def Let_def)

lemma lower_not_sign: "is_lower c \<Longrightarrow> c \<noteq> CHR ''@'' \<and> c \<noteq> CHR ''#''"
  by (auto simp: is_lower_def Let_def)

lemma blank_facts:
  "is_space CHR '' ''" "\<not> is_upper CHR '' ''"
  by (simp_all add: is_space_def is_upper_def Let_def)

text \<open>The characters of a joined list of words.\<close>

lemma set_join: "set (join ws) \<subseteq> \<Union> (set ` set ws) \<union> {CHR '' ''}"
  by (induction ws rule: join.induct) auto

lemma join_chars:
  assumes "\<forall>w \<in> set ws. \<forall>c \<in> set w. is_lower c" and "c \<in> set (join ws)"
  shows "is_lower c \<or> c = CHR '' ''"
  using assms set_join [of ws] by auto

lemma lower_join:
  assumes "\<forall>w \<in> set ws. \<forall>c \<in> set w. is_lower c"
  shows "lower (join ws) = join ws"
proof -
  have "lower_char c = c" if "c \<in> set (join ws)" for c
    using join_chars [OF assms that] by (auto simp: lower_char_def lower_not_upper blank_facts)
  then show ?thesis
    unfolding lower_def by (simp add: map_idI)
qed

lemma mention_pattern_None:
  "c \<noteq> CHR ''@'' \<Longrightarrow> c \<noteq> CHR ''#'' \<Longrightarrow> mention_pattern (c # cs) = None"
  by (simp add: mention_pattern_def lit_run_def)

lemma remove_mentions_id:
  "\<forall>c \<in> set s. c \<noteq> CHR ''@'' \<and> c \<noteq> CHR ''#'' \<Longrightarrow> re_sub_del mention_pattern s = s"
  by (induction s) (simp_all add: mention_pattern_None)

lemma remove_mentions_join:
  assumes "\<forall>w \<in> set ws. \<forall>c \<in> set w. is_lower c"
  shows "remove_mentions (join ws) = join ws"
proof -
  have "c \<noteq> CHR ''@'' \<and> c \<noteq> CHR ''#''" if "c \<in> set (join ws)" for c
    using join_chars [OF assms that] lower_not_sign by auto
  then show ?thesis
    unfolding remove_mentions_def by (intro remove_mentions_id) blast
qed

lemma remove_special_join:
  assumes "\<forall>w \<in> set ws. \<forall>c \<in> set w. is_lower c"
  shows "remove_special (join ws) = join ws"
proof -
  have "is_alpha c \<or> is_space c" if "c \<in> set (join ws)" for c
    using join_chars [OF assms that] by (auto simp: is_alpha_def blank_facts)
  then show ?thesis
    unfolding remove_special_def by (simp add: filter_id_conv)
qed

lemma collapse_spaces_word:
  "\<forall>c \<in> set w. \<not> is_space c \<Longrightarrow> collapse_spaces (w @ s) = w @ collapse_spaces s"
  by (induction w) simp_all

lemma hd_join:
  "w \<noteq> [] \<Longrightarrow> join (w # ws) \<noteq> [] \<and> hd (join (w # ws)) = hd w"
  by (cases ws) auto

lemma collapse_spaces_join:
  assumes "\<forall>w \<in> set ws. w \<noteq> [] \<and> (\<forall>c \<in> set w. \<not> is_space c)"
  shows "collapse_spaces (join ws) = join ws"
  using assms
proof (induction ws rule: join.induct)
  case 1
  show ?case by simp
next
  case (2 w)
  then show ?case
    using collapse_spaces_word [of w "[]"] by simp
next
  case (3 w v ws)
  have v: "v \<noteq> []" "\<not> is_space (hd v)"
    using 3(2) by auto
  have "join (v # ws) \<noteq> []" "hd (join (v # ws)) = hd v"
    using hd_join [OF v(1)] by simp_all
  then have "dropWhile is_space (join (v # ws)) = join (v # ws)"
    using v(2) by (cases "join (v # ws)") auto
  moreover have "collapse_spaces (join (v # ws)) = join (v # ws)"
    using 3 by simp
  moreover have "\<forall>c \<in> set w. \<not> is_space c"
    using 3(2) by simp
  ultimately show ?case
    by (simp add: collapse_spaces_word blank_facts)
qed

lemma last_join:
  "\<forall>w \<in> set ws. w \<noteq> [] \<Longrightarrow> ws \<noteq> [] \<Longrightarrow> join ws \<noteq> [] \<and> last (join ws) = last (last ws)"
  by (induction ws rule: join.induct) auto

lemma strip_join:
  assumes "\<forall>w \<in> set ws. w \<noteq> [] \<and> (\<forall>c \<in> set w. \<not> is_space c)"
  shows "strip (join ws) = join ws"
proof (cases ws)
  case Nil
  then show ?thesis by (simp add: strip_def)
next
  case (Cons w vs)
  have w: "w \<noteq> []" "\<not> is_space (hd w)"
    using assms Cons by auto
  have ne: "join ws \<noteq> []" and h: "hd (join ws) = hd w"
    using hd_join [OF w(1), of vs] Cons by simp_all
  have front: "dropWhile is_space (join ws) = join ws"
    using ne h w(2) by (cases "join ws") auto
  have "last ws \<in> set ws"
    using Cons by simp
  then have "last ws \<noteq> []" "\<forall>c \<in> set (last ws). \<not> is_space c"
    using assms by auto
  then have "\<not> is_space (last (last ws))"
    by simp
  moreover have "last (join ws) = last (last ws)"
    using last_join [of ws] assms Cons by simp
  ultimately have "\<not> is_space (hd (rev (join ws)))"
    using ne by (simp add: hd_rev)
  then have "dropWhile is_space (rev (join ws)) = rev (join ws)"
    using ne by (cases "rev (join ws)") auto
  then show ?thesis
    by (simp add: strip_def front)
qed

lemma clean_join:
  assumes "\<forall>w \<in> set ws. w \<noteq> [] \<and> (\<forall>c \<in> set w. is_lower c)"
    and "remove_urls (join ws) = join ws"
  shows "clean (join ws) = join ws"
proof -
  have low: "\<forall>w \<in> set ws. \<forall>c \<in> set w. is_lower c"
    using assms(1) by simp
  have nsp: "\<forall>w \<in> set ws. w \<noteq> [] \<and> (\<forall>c \<in> set w. \<not> is_space c)"
    using assms(1) lower_not_space by blast
  show ?thesis
    unfolding clean_def
    by (simp only: lower_join [OF low] assms(2) remove_mentions_join [OF low]
        remove_special_join [OF low] collapse_spaces_join [OF nsp] strip_join [OF nsp])
qed

lemma lemmatize_kept_stable:
  "\<forall>w \<in> set ws. 2 < length w \<and> w \<notin> stop_words env \<and> lemmatize env w = Inr w \<Longrightarrow>
   lemmatize_kept env ws = Inr ws"
  by (induction ws) simp_all

text \<open>
  Claim C7, as amended. Normalising a text twice gives what normalising it once gives,
  whenever the first result is stable under each step: it is a list of words joined by
  single blanks, each word made of lower-case letters, longer than two characters, no stop
  word and its own lemma; the URL step leaves it unchanged; and the tokenizer splits it
  into these words again.
\<close>

theorem preprocess_text_idempotent_when_stable:
  "preprocess_text env x = Inr (join ws) \<and>
   (\<forall>w \<in> set ws. 2 < length w \<and> (\<forall>c \<in> set w. is_lower c) \<and> w \<notin> stop_words env \<and>
      lemmatize env w = Inr w) \<and>
   remove_urls (join ws) = join ws \<and>
   word_tokenize env (join ws) = Inr ws \<longrightarrow>
   preprocess_twice env x = preprocess_text env x"
proof
  assume h: "preprocess_text env x = Inr (join ws) \<and>
   (\<forall>w \<in> set ws. 2 < length w \<and> (\<forall>c \<in> set w. is_lower c) \<and> w \<notin> stop_words env \<and>
      lemmatize env w = Inr w) \<and>
   remove_urls (join ws) = join ws \<and>
   word_tokenize env (join ws) = Inr ws"
  then have words: "\<forall>w \<in> set ws. w \<noteq> [] \<and> (\<forall>c \<in> set w. is_lower c)"
    by auto
  have cl: "clean (join ws) = join ws"
    using words h by (intro clean_join) simp_all
  have kept: "lemmatize_kept env ws = Inr ws"
    using h by (intro lemmatize_kept_stable) simp
  have "preprocess_text env (PyStr (join ws)) = Inr (join ws)"
    using h by (simp add: preprocess_text_def cl kept)
  with h show "preprocess_twice env x = preprocess_text env x"
    by (simp add: preprocess_twice_def)
qed

theorem preprocess_text_idempotent_when_stable_witness:
  "preprocess_text sample_nlp (PyStr ''I am NOT happy today!!'') =
     Inr (join [''not'', ''happy'', ''today'']) \<and>
   remove_urls (join [''not'', ''happy'', ''today'']) = join [''not'', ''happy'', ''today''] \<and>
   word_tokenize sample_nlp (join [''not'', ''happy'', ''today'']) =
     Inr [''not'', ''happy'', ''today''] \<and>
   preprocess_twice sample_nlp (PyStr ''I am NOT happy today!!'') =
     preprocess_text sample_nlp (PyStr ''I am NOT happy today!!'')"
proof -
  have a: "preprocess_text sample_nlp (PyStr ''I am NOT happy today!!'') =
     Inr (join [''not'', ''happy'', ''today''])"
    by code_simp
  have b: "\<forall>w \<in> set [''not'', ''happy'', ''today''].
      2 < length w \<and> (\<forall>c \<in> set w. is_lower c) \<and> w \<notin> stop_words sample_nlp \<and>
      lemmatize sample_nlp w = Inr w"
    by code_simp
  have c: "remove_urls (join [''not'', ''happy'', ''today'']) =
      join [''not'', ''happy'', ''today'']"
    by code_simp
  have d: "word_tokenize sample_nlp (join [''not'', ''happy'', ''today'']) =
     Inr [''not'', ''happy'', ''today'']"
    by code_simp
  have "preprocess_twice sample_nlp (PyStr ''I am NOT happy today!!'') =
     preprocess_text sample_nlp (PyStr ''I am NOT happy today!!'')"
    by (rule preprocess_text_idempotent_when_stable
          [where ws = "[''not'', ''happy'', ''today'']", rule_format])
      (intro conjI a b c d)
  with a c d show ?thesis
    by (intro conjI)
qed

text \<open>
  Claim C7 as stated fails: "w.w.w.example" is normalised to "wwwexample", which the URL
  step of a second normalisation removes as a whole.
\<close>

theorem preprocess_text_not_idempotent:
  "preprocess_text sample_nlp (PyStr ''w.w.w.example'') = Inr ''wwwexample'' \<and>
   preprocess_twice sample_nlp (PyStr ''w.w.w.example'') = Inr [] \<and>
   preprocess_twice sample_nlp (PyStr ''w.w.w.example'') \<noteq>
     preprocess_text sample_nlp (PyStr ''w.w.w.example'')"
proof -
  have a: "preprocess_text sample_nlp (PyStr ''w.w.w.example'') = Inr ''wwwexample''"
    by code_simp
  have b: "preprocess_twice sample_nlp (PyStr ''w.w.w.example'') = Inr []"
    by code_simp
  show ?thesis
    by (simp add: a b)
qed

subsection \<open>Negation words\<close>

text \<open>
  Whatever the library is, a token of at most two characters never reaches the
  lemmatizer: the loop gives the same result without such tokens.
\<close>

lemma short_tokens_dropped:
  "lemmatize_kept env ts = lemmatize_kept env (filter (\<lambda>t. 2 < length t) ts)"
proof (induction ts)
  case Nil
  show ?case by simp
next
  case (Cons t ts)
  show ?case
    by (simp add: Cons.IH [symmetric] cong: sum.case_cong)
qed

text \<open>
  After the first attempt to load the stop words succeeded, a negation word of more than
  two characters passes the stop word test.
\<close>

lemma negation_not_stop_word:
  "w \<in> EMOTION_WORDS \<Longrightarrow> w \<notin> init_stop_words (Inr english) retry"
  by (simp add: init_stop_words_def)

text \<open>
  Claim C1 does not hold of the code. "no" is one of \<^verbatim>\<open>EMOTION_WORDS\<close> and is taken out of
  the stop words, but it has two characters and the test \<^verbatim>\<open>len(token) > 2\<close> drops it: the
  text "no" is normalised to the empty text, and "I have no idea" to "idea". When the stop
  word corpus was missing at the first attempt, the \<^verbatim>\<open>except\<close> block loads the stop words
  again without taking \<^verbatim>\<open>EMOTION_WORDS\<close> out, and "I am not happy today" loses its "not",
  which it keeps otherwise.
\<close>

theorem negation_no_is_dropped:
  "''no'' \<in> EMOTION_WORDS \<and>
   ''no'' \<notin> stop_words sample_nlp \<and>
   preprocess_text sample_nlp (PyStr ''no'') = Inr [] \<and>
   preprocess_text sample_nlp (PyStr ''I have no idea'') = Inr ''idea'' \<and>
   preprocess_text sample_nlp (PyStr ''I am not happy today'') = Inr ''not happy today'' \<and>
   ''not'' \<in> stop_words fallback_nlp \<and>
   preprocess_text fallback_nlp (PyStr ''I am not happy today'') = Inr ''happy today''"
proof -
  have a: "''no'' \<in> EMOTION_WORDS"
    by (simp add: EMOTION_WORDS_def)
  have b: "''no'' \<notin> stop_words sample_nlp"
    by (simp add: sample_nlp_def negation_not_stop_word [OF a])
  have c: "preprocess_text sample_nlp (PyStr ''no'') = Inr []"
    by code_simp
  have d: "preprocess_text sample_nlp (PyStr ''I have no idea'') = Inr ''idea''"
    by code_simp
  have e: "preprocess_text sample_nlp (PyStr ''I am not happy today'') = Inr ''not happy today''"
    by code_simp
  have f: "''not'' \<in> stop_words fallback_nlp"
    by (simp add: fallback_nlp_def init_stop_words_def sample_stopwords_def)
  have g: "preprocess_text fallback_nlp (PyStr ''I am not happy today'') = Inr ''happy today''"
    by code_simp
  show ?thesis
    by (intro conjI a b c d e f g)
qed

end
